theory Spec2Isabelle
  imports
    Complex_Main
    "HOL-Library.Word"
    "HOL-Library.Multiset"
    "HOL-Library.Product_Lexorder"
    "HOL-Library.List_Lexorder"
begin

unbundle bit_operations_syntax

section \<open>Data of the wallet controller\<close>

text \<open>
  The embedding follows \<^verbatim>\<open>walletcontroller/client.go\<close> and the interface file that
  declares \<^verbatim>\<open>TxStatus\<close> and \<^verbatim>\<open>WalletController\<close>. Byte slices are lists of
  8-bit words, Go strings are \<^typ>\<open>string\<close>, a pointer that may be nil is an
  \<^typ>\<open>'a option\<close>.
\<close>

type_synonym bytes = "8 word list"

text \<open>\<^verbatim>\<open>chainhash.Hash\<close> is a 32-byte array; its length plays no role here.\<close>

type_synonym Hash = "8 word list"

text \<open>
  \<^verbatim>\<open>btcutil.Address\<close> is an interface of the btcutil library. The controller only
  hands an address to library functions and prints it, so an address is represented by
  its printed form.
\<close>

datatype Address = Address string

text \<open>
  Go errors. The errors the controller creates itself are listed by the message of their
  \<^verbatim>\<open>fmt.Errorf\<close> call; an error produced by a library function or by the backend is
  opaque to the controller and is a \<open>CollaboratorError\<close>. The last two constructors are
  the error kinds the specification names for the transaction builder.
\<close>

datatype error =
    CollaboratorError string
  | InvalidBitcoinBackend
      \<comment> \<open>\<^verbatim>\<open>"invalid bitcoin backend"\<close>\<close>
  | NotAllInputsSigned
      \<comment> \<open>\<^verbatim>\<open>"not all transactions inputs could be signed"\<close>\<close>
  | FailedToSpendTx error
      \<comment> \<open>\<^verbatim>\<open>"failed to bip322 to spend tx: %w"\<close>\<close>
  | OnlyNativeSegwit
      \<comment> \<open>\<^verbatim>\<open>"Bip322NativeSegwit support only native segwit addresses"\<close>\<close>
  | FailedToSignRaw error
      \<comment> \<open>\<^verbatim>\<open>"failed to sign raw transaction while creating bip322 signature: %w"\<close>\<close>
  | NotUnderWalletControl Address
      \<comment> \<open>\<^verbatim>\<open>"failed to create bip322 signature, address %s is not under wallet control"\<close>\<close>
  | NoPublicKey string
      \<comment> \<open>\<^verbatim>\<open>"address %s has no public key"\<close>\<close>
  | NoUsableFunds
  | InsufficientFunds

text \<open>A Go panic ends the call without a return value.\<close>

datatype panic =
    UnknownNotifierState "8 word"
      \<comment> \<open>\<^verbatim>\<open>panic(fmt.Sprintf("unknown notifier state: %s", state))\<close>\<close>
  | IndexOutOfRange
  | NilDereference

datatype 'a outcome = Panics panic | Returns 'a

subsection \<open>Wire types\<close>

record OutPoint =
  Hash :: Hash
  Index :: "32 word"

record TxIn =
  PreviousOutPoint :: OutPoint
  SignatureScript :: bytes
  Witness :: "bytes list"
  Sequence :: "32 word"

record TxOut =
  Value :: int
  PkScript :: bytes

record MsgTx =
  Version :: "32 word"
  TxIn :: "TxIn list"
  TxOut :: "TxOut list"
  LockTime :: "32 word"

subsection \<open>Confirmation status\<close>

text \<open>
  \<^verbatim>\<open>type TxStatus int\<close> with the three constants \<^verbatim>\<open>TxNotFound\<close>, \<^verbatim>\<open>TxInMemPool\<close>,
  \<^verbatim>\<open>TxInChain\<close> declared by \<^verbatim>\<open>iota\<close>.
\<close>

datatype TxStatus = TxNotFound | TxInMemPool | TxInChain

text \<open>
  \<^verbatim>\<open>notifier.TxConfStatus\<close> of the lnd library is a \<^verbatim>\<open>uint8\<close> with five named
  values, declared by \<^verbatim>\<open>iota\<close> in this order. Every other byte is a value of the type
  as well.
\<close>

type_synonym TxConfStatus = "8 word"

definition TxFoundMempool :: TxConfStatus where "TxFoundMempool = 0"
definition TxFoundIndex :: TxConfStatus where "TxFoundIndex = 1"
definition TxNotFoundIndex :: TxConfStatus where "TxNotFoundIndex = 2"
definition TxFoundManually :: TxConfStatus where "TxFoundManually = 3"
definition TxNotFoundManually :: TxConfStatus where "TxNotFoundManually = 4"

record ConfRequest =
  TxID :: Hash
  ReqPkScript :: bytes

record TxConfirmation =
  BlockHash :: Hash
  BlockHeight :: "32 word"
  TxIndex :: "32 word"

subsection \<open>Backend variant\<close>

text \<open>
  \<^verbatim>\<open>types.SupportedWalletBackend\<close> is declared in a package whose file is not among
  the sources. The controller compares the field with the two named constants only, so
  the type is the two constants and every other value, tagged with its number.
\<close>

datatype SupportedWalletBackend =
    BitcoindWalletBackend
  | BtcwalletWalletBackend
  | OtherWalletBackend int

subsection \<open>The RPC session\<close>

record RawTxWitnessInput =
  Txid :: string
  Vout :: "32 word"
  ScriptPubKey :: string
  Amount :: "real option"

text \<open>
  An entry of the backend's list of unspent outputs, in the terms of the
  specification's data model: outpoint, value, owning script and address, spendability
  flag and confirmation count.
\<close>

record ListUnspentResult =
  UnspentOutPoint :: OutPoint
  UnspentValue :: int
  UnspentScript :: bytes
  UnspentAddress :: string
  Spendable :: bool
  Confirmations :: int

record GetAddressInfoResult =
  PubKey :: "string option"

text \<open>
  The backend behind the embedded \<^verbatim>\<open>*rpcclient.Client\<close>: one answer function for
  every remote call the controller makes. \<^verbatim>\<open>notifier.ConfDetailsFromTxIndex\<close> is the
  lnd function that queries the transaction index through the client. A Go call that
  returns \<^verbatim>\<open>(value, error)\<close> and whose value the controller reads only after the
  error check is a sum; the three-valued calls keep all three values.
\<close>

record rpcclient =
  Client_ListUnspent :: "error + ListUnspentResult list"
  Client_SignRawTransactionWithWallet :: "MsgTx \<Rightarrow> MsgTx option \<times> bool \<times> error option"
  Client_SignRawTransaction :: "MsgTx \<Rightarrow> MsgTx option \<times> bool \<times> error option"
  Client_SignRawTransactionWithWallet2 ::
    "MsgTx \<Rightarrow> RawTxWitnessInput list \<Rightarrow> MsgTx option \<times> bool \<times> error option"
  Client_SendRawTransaction :: "MsgTx \<Rightarrow> bool \<Rightarrow> error + Hash"
  Client_WalletPassphrase :: "string \<Rightarrow> int \<Rightarrow> error option"
  Client_GetAddressInfo :: "string \<Rightarrow> error + GetAddressInfoResult"
  Client_DumpPrivKey :: "Address \<Rightarrow> error + bytes"
  Client_ImportPrivKey :: "bytes \<Rightarrow> error option"
  ConfDetailsFromTxIndex ::
    "ConfRequest \<Rightarrow> string \<Rightarrow> TxConfirmation option \<times> TxConfStatus \<times> error option"

text \<open>Every remote call the controller issues is recorded, in order.\<close>

datatype rpc_call =
    CallListUnspent
  | CallSignRawTransactionWithWallet MsgTx
  | CallSignRawTransaction MsgTx
  | CallSignRawTransactionWithWallet2 MsgTx "RawTxWitnessInput list"
  | CallSendRawTransaction MsgTx bool
  | CallWalletPassphrase string int
  | CallGetAddressInfo string
  | CallDumpPrivKey Address
  | CallImportPrivKey bytes
  | CallConfDetailsFromTxIndex ConfRequest string

type_synonym rpc_log = "rpc_call list"

record RpcWalletController =
  Client :: rpcclient
  walletPassphrase :: string
  network :: string
  backend :: SupportedWalletBackend

definition txNotFoundErrMsgBtcd :: string where
  "txNotFoundErrMsgBtcd = ''No information available about transaction''"

definition txNotFoundErrMsgBitcoind :: string where
  "txNotFoundErrMsgBitcoind = ''No such mempool or blockchain transaction''"

subsection \<open>Library functions\<close>

text \<open>
  Pure functions of the libraries the controller calls (lnd, btcd, babylon's bip322,
  the staker's configuration package). They are parameters of the model.
\<close>

record ConnConfig =
  Host :: string
  User :: string
  Pass :: string
  DisableTLS :: bool
  DisableConnectOnNew :: bool
  DisableAutoReconnect :: bool
  HTTPPostMode :: bool
  Certificates :: bytes

text \<open>Of \<^verbatim>\<open>chaincfg.Params\<close> the controller reads the name only.\<close>

record Params =
  Name :: string

record libs =
  ReadCertFile :: "string \<Rightarrow> string \<Rightarrow> error + bytes"
  rpcclient_New :: "ConnConfig \<Rightarrow> error + rpcclient"
  NewConfRequest :: "Hash option \<Rightarrow> bytes \<Rightarrow> error + ConfRequest"
  GetToSpendTx :: "bytes \<Rightarrow> Address \<Rightarrow> error + MsgTx"
  GetToSignTx :: "MsgTx \<Rightarrow> MsgTx"
  IsPayToWitnessPubKeyHash :: "bytes \<Rightarrow> bool"
  PayToAddrScript :: "Address \<Rightarrow> error + bytes"
  TxHash :: "MsgTx \<Rightarrow> Hash"
  HashString :: "Hash \<Rightarrow> string"
  DecodeString :: "string \<Rightarrow> error + bytes"
  ParsePubKey :: "bytes \<Rightarrow> error + bytes"

text \<open>
  \<^verbatim>\<open>hex.EncodeToString\<close> of Go's standard library: two lower-case hexadecimal digits
  for every byte, the high nibble first.
\<close>

definition hextable :: string where
  "hextable = ''0123456789abcdef''"

fun EncodeToString :: "bytes \<Rightarrow> string" where
  "EncodeToString [] = []"
| "EncodeToString (b # bs) =
     hextable ! unat (drop_bit 4 b) # hextable ! unat (b AND 0x0f) # EncodeToString bs"

section \<open>Confirmation status mapper\<close>

definition nofitierStateToWalletState :: "TxConfStatus \<Rightarrow> TxStatus outcome" where
  "nofitierStateToWalletState state =
     (if state = TxNotFoundIndex then Returns TxNotFound
      else if state = TxFoundMempool then Returns TxInMemPool
      else if state = TxFoundIndex then Returns TxInChain
      else if state = TxNotFoundManually then Returns TxNotFound
      else if state = TxFoundManually then Returns TxInChain
      else Panics (UnknownNotifierState state))"

definition getTxDetails ::
  "RpcWalletController \<Rightarrow> ConfRequest \<Rightarrow> string \<Rightarrow> rpc_log \<Rightarrow>
   (TxConfirmation option \<times> TxStatus \<times> error option) outcome \<times> rpc_log" where
  "getTxDetails w req msg tr =
     (case ConfDetailsFromTxIndex (Client w) req msg of (res, state, err) \<Rightarrow>
        (case err of
           Some e \<Rightarrow> (Returns (None, TxNotFound, Some e), tr @ [CallConfDetailsFromTxIndex req msg])
         | None \<Rightarrow>
             (case nofitierStateToWalletState state of
                Panics p \<Rightarrow> (Panics p, tr @ [CallConfDetailsFromTxIndex req msg])
              | Returns st \<Rightarrow>
                  (Returns (res, st, None), tr @ [CallConfDetailsFromTxIndex req msg]))))"

definition TxDetails ::
  "libs \<Rightarrow> RpcWalletController \<Rightarrow> Hash option \<Rightarrow> bytes \<Rightarrow> rpc_log \<Rightarrow>
   (TxConfirmation option \<times> TxStatus \<times> error option) outcome \<times> rpc_log" where
  "TxDetails L w txHash pkScript tr =
     (case NewConfRequest L txHash pkScript of
        Inl err \<Rightarrow> (Returns (None, TxNotFound, Some err), tr)
      | Inr req \<Rightarrow>
          (case backend w of
             BitcoindWalletBackend \<Rightarrow> getTxDetails w req txNotFoundErrMsgBitcoind tr
           | BtcwalletWalletBackend \<Rightarrow> getTxDetails w req txNotFoundErrMsgBtcd tr
           | OtherWalletBackend _ \<Rightarrow> (Returns (None, TxNotFound, Some InvalidBitcoinBackend), tr)))"

section \<open>Signing dispatch\<close>

definition SignRawTransaction ::
  "RpcWalletController \<Rightarrow> MsgTx \<Rightarrow> rpc_log \<Rightarrow>
   (MsgTx option \<times> bool \<times> error option) \<times> rpc_log" where
  "SignRawTransaction w tx tr =
     (case backend w of
        BitcoindWalletBackend \<Rightarrow>
          (Client_SignRawTransactionWithWallet (Client w) tx,
           tr @ [CallSignRawTransactionWithWallet tx])
      | BtcwalletWalletBackend \<Rightarrow>
          (Client_SignRawTransaction (Client w) tx, tr @ [CallSignRawTransaction tx])
      | OtherWalletBackend _ \<Rightarrow> ((None, False, Some InvalidBitcoinBackend), tr))"

section \<open>Transaction builder\<close>

subsection \<open>Go's sort package\<close>

text \<open>
  \<^verbatim>\<open>sort.Sort\<close> orders a slice so that no element is \<^verbatim>\<open>Less\<close> than an element
  that stands before it, and does not promise an order among elements neither of which
  is \<^verbatim>\<open>Less\<close> than the other. The model is an insertion sort over the \<^verbatim>\<open>Less\<close>
  function; the statements below that depend on the order of ties assume there are none.
  \<^verbatim>\<open>sort.Reverse\<close> swaps the arguments of \<^verbatim>\<open>Less\<close>.
\<close>

fun insertLess :: "('a \<Rightarrow> 'a \<Rightarrow> bool) \<Rightarrow> 'a \<Rightarrow> 'a list \<Rightarrow> 'a list" where
  "insertLess lt x [] = [x]"
| "insertLess lt x (y # ys) =
     (if lt x y then x # y # ys else y # insertLess lt x ys)"

fun sortSort :: "('a \<Rightarrow> 'a \<Rightarrow> bool) \<Rightarrow> 'a list \<Rightarrow> 'a list" where
  "sortSort lt [] = []"
| "sortSort lt (x # xs) = insertLess lt x (sortSort lt xs)"

definition sortReverse :: "('a \<Rightarrow> 'a \<Rightarrow> bool) \<Rightarrow> 'a \<Rightarrow> 'a \<Rightarrow> bool" where
  "sortReverse lt i j = lt j i"

subsection \<open>Unspent outputs\<close>

text \<open>
  Modelled from the spec: the type \<^verbatim>\<open>Utxo\<close>, the conversion \<^verbatim>\<open>resultsToUtxos\<close> and
  the ordering \<^verbatim>\<open>byAmount\<close> are declared in a file of the package that is not among
  the sources. The specification's unspent output has an outpoint, a value and an
  owning script and address; the listing is "optionally filtered to currently
  spendable entries", in the order of the snapshot, and the specification names no
  failure of the conversion.
\<close>

record Utxo =
  UtxoAmount :: int
  UtxoOutPoint :: OutPoint
  UtxoPkScript :: bytes
  UtxoAddress :: string

text \<open>
  Modelled from the spec: \<^verbatim>\<open>resultsToUtxos\<close> is not among the sources. It keeps the
  entries of the listing, or with \<open>onlySpendable\<close> the spendable ones, in their order, and
  turns each into an unspent output.
\<close>

definition resultToUtxo :: "ListUnspentResult \<Rightarrow> Utxo" where
  "resultToUtxo r =
     \<lparr>UtxoAmount = UnspentValue r, UtxoOutPoint = UnspentOutPoint r,
      UtxoPkScript = UnspentScript r, UtxoAddress = UnspentAddress r\<rparr>"

definition resultsToUtxos :: "ListUnspentResult list \<Rightarrow> bool \<Rightarrow> error + Utxo list" where
  "resultsToUtxos results onlySpendable =
     Inr (map resultToUtxo (filter (\<lambda>r. \<not> onlySpendable \<or> Spendable r) results))"

text \<open>
  Modelled from the spec: the order of outpoints that breaks ties is not in the sources;
  it is taken as transaction id first, index second. An unspent output is compared by
  its value first and its outpoint second.
\<close>

definition outpointKey :: "OutPoint \<Rightarrow> 8 word list \<times> 32 word" where
  "outpointKey p = (Hash p, Index p)"

definition utxoKey :: "Utxo \<Rightarrow> int \<times> 8 word list \<times> 32 word" where
  "utxoKey u = (UtxoAmount u, outpointKey (UtxoOutPoint u))"

text \<open>
  Modelled from the spec: \<^verbatim>\<open>byAmount\<close>'s \<^verbatim>\<open>Less\<close>. The specification sorts "by value
  descending (largest-first, deterministic tie-break by outpoint)"; the source sorts with
  \<^verbatim>\<open>sort.Reverse(byAmount(utxos))\<close>, so \<^verbatim>\<open>Less\<close> itself is ascending: first by
  value, then by outpoint (transaction id, then index).
\<close>

definition byAmount_Less :: "Utxo \<Rightarrow> Utxo \<Rightarrow> bool" where
  "byAmount_Less a b = (utxoKey a < utxoKey b)"

subsection \<open>Selection, fee and change\<close>

text \<open>
  Modelled from the spec: \<^verbatim>\<open>buildTxFromOutputs\<close> is declared in a file of the package
  that is not among the sources. The specification (section 4.1) gives the algorithm:
  accumulate inputs, largest first, until the covered value reaches the requested value
  plus the fee, the fee being recomputed from the estimated size as the number of
  candidate inputs grows; append a change output for the remainder unless the remainder
  is below the dust threshold; fail with \<open>NoUsableFunds\<close> when there is no eligible
  output and with \<open>InsufficientFunds\<close> when the available value does not suffice. The
  fee rate is a value per 1000 bytes. The size estimate and the dust threshold, which
  the specification does not define, are parameters.
\<close>

record fee_rules =
  estimatedSize :: "nat \<Rightarrow> TxOut list \<Rightarrow> bytes \<Rightarrow> nat"
  dustThreshold :: int

text \<open>
  Modelled from the spec: the fee for an estimated size, at a rate given as a value per
  1000 bytes, rounded down.
\<close>

definition feeForSize :: "int \<Rightarrow> nat \<Rightarrow> int" where
  "feeForSize feeRatePerKb sz = feeRatePerKb * int sz div 1000"

definition requiredFee :: "fee_rules \<Rightarrow> int \<Rightarrow> TxOut list \<Rightarrow> bytes \<Rightarrow> nat \<Rightarrow> int" where
  "requiredFee R feeRatePerKb outputs changeScript n =
     feeForSize feeRatePerKb (estimatedSize R n outputs changeScript)"

text \<open>
  Modelled from the spec: the covered value of a set of inputs and the requested value of
  the outputs.
\<close>

definition totalValue :: "Utxo list \<Rightarrow> int" where
  "totalValue us = sum_list (map UtxoAmount us)"

definition sumOutputValues :: "TxOut list \<Rightarrow> int" where
  "sumOutputValues outs = sum_list (map Value outs)"

text \<open>
  Modelled from the spec: "accumulate inputs until covered value \<open>\<ge>\<close> requested value +
  fee, where fee is recomputed iteratively as the candidate input/output count changes
  estimated size". \<open>sel\<close> are the inputs taken so far, in order.
\<close>

fun accumulateInputs ::
  "(nat \<Rightarrow> int) \<Rightarrow> int \<Rightarrow> Utxo list \<Rightarrow> Utxo list \<Rightarrow> Utxo list option" where
  "accumulateInputs feeOf requested sel [] =
     (if requested + feeOf (length sel) \<le> totalValue sel then Some sel else None)"
| "accumulateInputs feeOf requested sel (u # us) =
     (if requested + feeOf (length sel) \<le> totalValue sel then Some sel
      else accumulateInputs feeOf requested (sel @ [u]) us)"

text \<open>
  Modelled from the spec: the "minimal fee", the least fee over the possible numbers of
  candidate inputs, \<open>0\<close> to \<open>n\<close>.
\<close>

fun minimalFee :: "(nat \<Rightarrow> int) \<Rightarrow> nat \<Rightarrow> int" where
  "minimalFee feeOf 0 = feeOf 0"
| "minimalFee feeOf (Suc n) = min (feeOf (Suc n)) (minimalFee feeOf n)"

text \<open>
  Modelled from the spec: an input that spends an unspent output, not yet signed. The
  version, lock time and sequence number of the built transaction are not fixed by the
  specification; they are the library's defaults.
\<close>

definition utxoToTxIn :: "Utxo \<Rightarrow> TxIn" where
  "utxoToTxIn u =
     \<lparr>PreviousOutPoint = UtxoOutPoint u, SignatureScript = [], Witness = [],
      Sequence = - 1\<rparr>"

text \<open>
  Modelled from the spec: \<^verbatim>\<open>buildTxFromOutputs\<close>, as described above. The
  caller-supplied outputs keep their order and the change output, if any, comes last.
\<close>

definition buildTxFromOutputs ::
  "fee_rules \<Rightarrow> Utxo list \<Rightarrow> TxOut list \<Rightarrow> int \<Rightarrow> bytes \<Rightarrow> error + MsgTx" where
  "buildTxFromOutputs R utxos outputs feeRatePerKb changeScript =
     (if utxos = [] then Inl NoUsableFunds
      else
        (case accumulateInputs (requiredFee R feeRatePerKb outputs changeScript)
                (sumOutputValues outputs) [] utxos of
           None \<Rightarrow> Inl InsufficientFunds
         | Some sel \<Rightarrow>
             (let fee = requiredFee R feeRatePerKb outputs changeScript (length sel);
                  remainder = totalValue sel - sumOutputValues outputs - fee
              in Inr \<lparr>Version = 1, TxIn = map utxoToTxIn sel,
                      TxOut = outputs @
                        (if remainder < dustThreshold R then []
                         else [\<lparr>Value = remainder, PkScript = changeScript\<rparr>]),
                      LockTime = 0\<rparr>)))"

subsection \<open>The controller's operations\<close>

text \<open>
  The candidates \<^verbatim>\<open>CreateTransaction\<close> hands to \<^verbatim>\<open>buildTxFromOutputs\<close>: the spendable
  entries of the snapshot after \<^verbatim>\<open>sort.Sort(sort.Reverse(byAmount(utxos)))\<close>.
\<close>

definition sortedCandidates :: "Utxo list \<Rightarrow> Utxo list" where
  "sortedCandidates utxos = sortSort (sortReverse byAmount_Less) utxos"

definition CreateTransaction ::
  "libs \<Rightarrow> fee_rules \<Rightarrow> RpcWalletController \<Rightarrow> TxOut list \<Rightarrow> int \<Rightarrow> Address \<Rightarrow> rpc_log \<Rightarrow>
   (error + MsgTx) \<times> rpc_log" where
  "CreateTransaction L R w outputs feeRatePerKb changeAddres tr =
     (case Client_ListUnspent (Client w) of
        Inl err \<Rightarrow> (Inl err, tr @ [CallListUnspent])
      | Inr utxoResults \<Rightarrow>
          (case resultsToUtxos utxoResults True of
             Inl err \<Rightarrow> (Inl err, tr @ [CallListUnspent])
           | Inr utxos \<Rightarrow>
               (case PayToAddrScript L changeAddres of
                  Inl err \<Rightarrow> (Inl err, tr @ [CallListUnspent])
                | Inr changeScript \<Rightarrow>
                    (buildTxFromOutputs R (sortedCandidates utxos) outputs feeRatePerKb
                       changeScript,
                     tr @ [CallListUnspent]))))"

definition CreateAndSignTx ::
  "libs \<Rightarrow> fee_rules \<Rightarrow> RpcWalletController \<Rightarrow> TxOut list \<Rightarrow> int \<Rightarrow> Address \<Rightarrow> rpc_log \<Rightarrow>
   (error + MsgTx option) \<times> rpc_log" where
  "CreateAndSignTx L R w outputs feeRatePerKb changeAddress tr =
     (case CreateTransaction L R w outputs feeRatePerKb changeAddress tr of
        (Inl err, tr1) \<Rightarrow> (Inl err, tr1)
      | (Inr tx, tr1) \<Rightarrow>
          (case SignRawTransaction w tx tr1 of
             ((fundedTx, signed', Some err), tr2) \<Rightarrow> (Inl err, tr2)
           | ((fundedTx, signed', None), tr2) \<Rightarrow>
               (if \<not> signed' then (Inl NotAllInputsSigned, tr2)
                else (Inr fundedTx, tr2))))"

section \<open>Ownership proof\<close>

definition SignBip322NativeSegwit ::
  "libs \<Rightarrow> RpcWalletController \<Rightarrow> bytes \<Rightarrow> Address \<Rightarrow> rpc_log \<Rightarrow>
   (error + bytes list) outcome \<times> rpc_log" where
  "SignBip322NativeSegwit L w msg address tr =
     (case GetToSpendTx L msg address of
        Inl err \<Rightarrow> (Returns (Inl (FailedToSpendTx err)), tr)
      | Inr toSpend \<Rightarrow>
          (case TxOut toSpend of
             [] \<Rightarrow> (Panics IndexOutOfRange, tr)
           | out0 # _ \<Rightarrow>
               (if \<not> IsPayToWitnessPubKeyHash L (PkScript out0)
                then (Returns (Inl OnlyNativeSegwit), tr)
                else
                  (let toSpendhash = TxHash L toSpend;
                       toSign = GetToSignTx L toSpend;
                       amt = 0;
                       inputs = [\<lparr>Txid = HashString L toSpendhash, Vout = 0,
                                  ScriptPubKey = EncodeToString (PkScript out0),
                                  Amount = Some amt\<rparr>];
                       tr' = tr @ [CallSignRawTransactionWithWallet2 toSign inputs]
                   in (case Client_SignRawTransactionWithWallet2 (Client w) toSign inputs of
                         (signed', all, Some err) \<Rightarrow> (Returns (Inl (FailedToSignRaw err)), tr')
                       | (signed', all, None) \<Rightarrow>
                           (if \<not> all
                            then (Returns (Inl (NotUnderWalletControl address)), tr')
                            else
                              (case signed' of
                                 None \<Rightarrow> (Panics NilDereference, tr')
                               | Some s \<Rightarrow>
                                   (case TxIn s of
                                      [] \<Rightarrow> (Panics IndexOutOfRange, tr')
                                    | in0 # _ \<Rightarrow> (Returns (Inr (Witness in0)), tr')))))))))"

section \<open>Construction and the remaining operations\<close>

definition NewRpcWalletControllerFromArgs ::
  "libs \<Rightarrow> string \<Rightarrow> string \<Rightarrow> string \<Rightarrow> string \<Rightarrow> string \<Rightarrow> SupportedWalletBackend \<Rightarrow>
   Params option \<Rightarrow> bool \<Rightarrow> string \<Rightarrow> string \<Rightarrow> (error + RpcWalletController) outcome" where
  "NewRpcWalletControllerFromArgs L host user pass network' walletPassphrase' nodeBackend params
       disableTls rawWalletCert walletCertFilePath =
     (let connCfg =
            \<lparr>Host = host, User = user, Pass = pass, DisableTLS = disableTls,
             DisableConnectOnNew = True, DisableAutoReconnect = False, HTTPPostMode = True,
             Certificates = []\<rparr>
      in (case (if \<not> DisableTLS connCfg
                then (case ReadCertFile L rawWalletCert walletCertFilePath of
                        Inl err \<Rightarrow> Inl err
                      | Inr cert \<Rightarrow> Inr (connCfg\<lparr>Certificates := cert\<rparr>))
                else Inr connCfg) of
            Inl err \<Rightarrow> Returns (Inl err)
          | Inr connCfg' \<Rightarrow>
              (case rpcclient_New L connCfg' of
                 Inl err \<Rightarrow> Returns (Inl err)
               | Inr c \<Rightarrow>
                   (case params of
                      None \<Rightarrow> Panics NilDereference
                    | Some p \<Rightarrow>
                        Returns (Inr \<lparr>Client = c, walletPassphrase = walletPassphrase',
                                      network = Name p, backend = nodeBackend\<rparr>)))))"

definition NetworkName :: "RpcWalletController \<Rightarrow> string" where
  "NetworkName w = network w"

fun EncodeAddress :: "Address \<Rightarrow> string" where
  "EncodeAddress (Address s) = s"

definition UnlockWallet :: "RpcWalletController \<Rightarrow> int \<Rightarrow> rpc_log \<Rightarrow> error option \<times> rpc_log" where
  "UnlockWallet w timoutSec tr =
     (Client_WalletPassphrase (Client w) (walletPassphrase w) timoutSec,
      tr @ [CallWalletPassphrase (walletPassphrase w) timoutSec])"

definition AddressPublicKey ::
  "libs \<Rightarrow> RpcWalletController \<Rightarrow> Address \<Rightarrow> rpc_log \<Rightarrow> (error + bytes) \<times> rpc_log" where
  "AddressPublicKey L w address tr =
     (let encoded = EncodeAddress address; tr' = tr @ [CallGetAddressInfo encoded]
      in (case Client_GetAddressInfo (Client w) encoded of
            Inl err \<Rightarrow> (Inl err, tr')
          | Inr info \<Rightarrow>
              (case PubKey info of
                 None \<Rightarrow> (Inl (NoPublicKey encoded), tr')
               | Some pk \<Rightarrow>
                   (case DecodeString L pk of
                      Inl err \<Rightarrow> (Inl err, tr')
                    | Inr decodedHex \<Rightarrow> (ParsePubKey L decodedHex, tr')))))"

definition DumpPrivateKey ::
  "RpcWalletController \<Rightarrow> Address \<Rightarrow> rpc_log \<Rightarrow> (error + bytes) \<times> rpc_log" where
  "DumpPrivateKey w address tr =
     (case Client_DumpPrivKey (Client w) address of
        Inl err \<Rightarrow> (Inl err, tr @ [CallDumpPrivKey address])
      | Inr privKey \<Rightarrow> (Inr privKey, tr @ [CallDumpPrivKey address]))"

text \<open>
  \<^verbatim>\<open>ImportPrivKey\<close> of the interface is the method of the embedded client itself.
\<close>

definition ImportPrivKey ::
  "RpcWalletController \<Rightarrow> bytes \<Rightarrow> rpc_log \<Rightarrow> error option \<times> rpc_log" where
  "ImportPrivKey w privKeyWIF tr =
     (Client_ImportPrivKey (Client w) privKeyWIF, tr @ [CallImportPrivKey privKeyWIF])"

definition SendRawTransaction ::
  "RpcWalletController \<Rightarrow> MsgTx \<Rightarrow> bool \<Rightarrow> rpc_log \<Rightarrow> (error + Hash) \<times> rpc_log" where
  "SendRawTransaction w tx allowHighFees tr =
     (Client_SendRawTransaction (Client w) tx allowHighFees,
      tr @ [CallSendRawTransaction tx allowHighFees])"

definition ListOutputs ::
  "RpcWalletController \<Rightarrow> bool \<Rightarrow> rpc_log \<Rightarrow> (error + Utxo list) \<times> rpc_log" where
  "ListOutputs w onlySpendable tr =
     (case Client_ListUnspent (Client w) of
        Inl err \<Rightarrow> (Inl err, tr @ [CallListUnspent])
      | Inr utxoResults \<Rightarrow>
          (case resultsToUtxos utxoResults onlySpendable of
             Inl err \<Rightarrow> (Inl err, tr @ [CallListUnspent])
           | Inr utxos \<Rightarrow> (Inr utxos, tr @ [CallListUnspent])))"

subsection \<open>A controller's lifetime\<close>

text \<open>
  A call of any method of the \<^verbatim>\<open>WalletController\<close> interface. Every method has a
  pointer receiver, and none of them assigns to a field of the receiver: after the call
  the controller is the one it was, and the session has seen the method's remote calls.
\<close>

datatype method_call =
    DoUnlockWallet int
  | DoAddressPublicKey Address
  | DoDumpPrivateKey Address
  | DoImportPrivKey bytes
  | DoNetworkName
  | DoCreateTransaction "TxOut list" int Address
  | DoSignRawTransaction MsgTx
  | DoCreateAndSignTx "TxOut list" int Address
  | DoSendRawTransaction MsgTx bool
  | DoListOutputs bool
  | DoTxDetails "Hash option" bytes
  | DoSignBip322NativeSegwit bytes Address

fun invoke ::
  "libs \<Rightarrow> fee_rules \<Rightarrow> RpcWalletController \<times> rpc_log \<Rightarrow> method_call \<Rightarrow>
   RpcWalletController \<times> rpc_log" where
  "invoke L R (w, tr) (DoUnlockWallet t) = (w, snd (UnlockWallet w t tr))"
| "invoke L R (w, tr) (DoAddressPublicKey a) = (w, snd (AddressPublicKey L w a tr))"
| "invoke L R (w, tr) (DoDumpPrivateKey a) = (w, snd (DumpPrivateKey w a tr))"
| "invoke L R (w, tr) (DoImportPrivKey k) = (w, snd (ImportPrivKey w k tr))"
| "invoke L R (w, tr) DoNetworkName = (w, tr)"
| "invoke L R (w, tr) (DoCreateTransaction outs rate a) =
     (w, snd (CreateTransaction L R w outs rate a tr))"
| "invoke L R (w, tr) (DoSignRawTransaction tx) = (w, snd (SignRawTransaction w tx tr))"
| "invoke L R (w, tr) (DoCreateAndSignTx outs rate a) =
     (w, snd (CreateAndSignTx L R w outs rate a tr))"
| "invoke L R (w, tr) (DoSendRawTransaction tx high) = (w, snd (SendRawTransaction w tx high tr))"
| "invoke L R (w, tr) (DoListOutputs only) = (w, snd (ListOutputs w only tr))"
| "invoke L R (w, tr) (DoTxDetails h s) = (w, snd (TxDetails L w h s tr))"
| "invoke L R (w, tr) (DoSignBip322NativeSegwit m a) =
     (w, snd (SignBip322NativeSegwit L w m a tr))"

definition lifetime ::
  "libs \<Rightarrow> fee_rules \<Rightarrow> RpcWalletController \<times> rpc_log \<Rightarrow> method_call list \<Rightarrow>
   RpcWalletController \<times> rpc_log" where
  "lifetime L R st calls = foldl (invoke L R) st calls"

section \<open>Example environment\<close>

text \<open>
  A concrete backend and concrete library functions, used to evaluate the operations.
  The library functions behave like the real ones on the inputs used: a script is
  accepted by \<open>NewConfRequest\<close> unless it is empty (the library rejects script types it
  does not know), and it is witness-pubkey-hash when it is \<^verbatim>\<open>OP_0 OP_DATA_20\<close> followed
  by 20 bytes. The address printed as the empty string stands for an address that
  \<open>PayToAddrScript\<close> rejects, as the library rejects a nil address and every address
  type it does not know.
\<close>

definition exTx :: MsgTx where
  "exTx = \<lparr>Version = 1, TxIn = [], TxOut = [\<lparr>Value = 4000, PkScript = [0x51]\<rparr>], LockTime = 0\<rparr>"

definition exSignedTx :: MsgTx where
  "exSignedTx =
     \<lparr>Version = 0,
      TxIn = [\<lparr>PreviousOutPoint = \<lparr>Hash = [7], Index = 0\<rparr>, SignatureScript = [],
               Witness = [[0x30, 0x01], [0x02, 0x03]], Sequence = 0\<rparr>],
      TxOut = [\<lparr>Value = 0, PkScript = [0x6a]\<rparr>], LockTime = 0\<rparr>"

definition exUnspent :: "ListUnspentResult list" where
  "exUnspent =
     [\<lparr>UnspentOutPoint = \<lparr>Hash = [1], Index = 0\<rparr>, UnspentValue = 3000, UnspentScript = [0x51],
       UnspentAddress = ''a1'', Spendable = True, Confirmations = 1\<rparr>,
      \<lparr>UnspentOutPoint = \<lparr>Hash = [2], Index = 1\<rparr>, UnspentValue = 5000, UnspentScript = [0x51],
       UnspentAddress = ''a2'', Spendable = True, Confirmations = 3\<rparr>,
      \<lparr>UnspentOutPoint = \<lparr>Hash = [3], Index = 0\<rparr>, UnspentValue = 9000, UnspentScript = [0x51],
       UnspentAddress = ''a3'', Spendable = False, Confirmations = 6\<rparr>]"

definition exClient :: rpcclient where
  "exClient =
     \<lparr>Client_ListUnspent = Inr exUnspent,
      Client_SignRawTransactionWithWallet = (\<lambda>tx. (Some tx, True, None)),
      Client_SignRawTransaction = (\<lambda>tx. (Some tx, False, None)),
      Client_SignRawTransactionWithWallet2 = (\<lambda>tx ins. (Some exSignedTx, True, None)),
      Client_SendRawTransaction = (\<lambda>tx high. Inr [9]),
      Client_WalletPassphrase = (\<lambda>p t. None),
      Client_GetAddressInfo = (\<lambda>a. Inr \<lparr>PubKey = None\<rparr>),
      Client_DumpPrivKey = (\<lambda>a. Inl (CollaboratorError ''wallet is locked'')),
      Client_ImportPrivKey = (\<lambda>k. None),
      ConfDetailsFromTxIndex =
        (\<lambda>req msg. if TxID req = [] then (None, 0, Some (CollaboratorError ''no txindex''))
                    else (None, TxNotFoundIndex, None))\<rparr>"

definition exLibs :: libs where
  "exLibs =
     \<lparr>ReadCertFile =
        (\<lambda>raw path. if raw = [] \<and> path = [] then Inl (CollaboratorError ''no certificate'')
                     else Inr [1, 2, 3]),
      rpcclient_New = (\<lambda>cfg. Inr exClient),
      NewConfRequest =
        (\<lambda>h s. if s = [] then Inl (CollaboratorError ''unsupported script type'')
               else Inr \<lparr>TxID = (case h of None \<Rightarrow> [] | Some x \<Rightarrow> x), ReqPkScript = s\<rparr>),
      GetToSpendTx =
        (\<lambda>msg a. case a of Address s \<Rightarrow>
           if s = [] then Inl (CollaboratorError ''empty address'')
           else Inr \<lparr>Version = 0, TxIn = [],
                     TxOut = [\<lparr>Value = 0,
                               PkScript = (if s = ''segwit'' then 0 # 20 # replicate 20 1
                                           else [0x76, 0xa9])\<rparr>],
                     LockTime = 0\<rparr>),
      GetToSignTx = (\<lambda>t. t\<lparr>Version := 0\<rparr>),
      IsPayToWitnessPubKeyHash = (\<lambda>s. length s = 22 \<and> s ! 0 = 0 \<and> s ! 1 = 20),
      PayToAddrScript =
        (\<lambda>a. case a of Address s \<Rightarrow>
           if s = [] then Inl (CollaboratorError ''unsupported address type'')
           else Inr [0x51]),
      TxHash = (\<lambda>t. [of_nat (length (TxOut t))]),
      HashString = (\<lambda>h. EncodeToString (rev h)),
      DecodeString = (\<lambda>s. Inr []),
      ParsePubKey = (\<lambda>b. Inr b)\<rparr>"

definition exController :: "SupportedWalletBackend \<Rightarrow> RpcWalletController" where
  "exController b =
     \<lparr>Client = exClient, walletPassphrase = ''pass'', network = ''regtest'', backend = b\<rparr>"

definition exRules :: fee_rules where
  "exRules =
     \<lparr>estimatedSize = (\<lambda>n outs cs. 10 + 150 * n + 40 * length outs + length cs),
      dustThreshold = 546\<rparr>"

text \<open>Variants of the backend: a locked wallet, an empty wallet, the same snapshot listed backwards.\<close>

definition exLockedController :: RpcWalletController where
  "exLockedController =
     \<lparr>Client = exClient\<lparr>Client_SignRawTransactionWithWallet2 :=
                 (\<lambda>tx ins. (None, False, Some (CollaboratorError ''wallet is locked'')))\<rparr>,
      walletPassphrase = ''pass'', network = ''regtest'', backend = BitcoindWalletBackend\<rparr>"

definition exEmptyController :: RpcWalletController where
  "exEmptyController =
     \<lparr>Client = exClient\<lparr>Client_ListUnspent := Inr []\<rparr>,
      walletPassphrase = ''pass'', network = ''regtest'', backend = BitcoindWalletBackend\<rparr>"

definition exReversedController :: RpcWalletController where
  "exReversedController =
     \<lparr>Client = exClient\<lparr>Client_ListUnspent := Inr (rev exUnspent)\<rparr>,
      walletPassphrase = ''pass'', network = ''regtest'', backend = BitcoindWalletBackend\<rparr>"

definition exOutputs :: "TxOut list" where
  "exOutputs = [\<lparr>Value = 4000, PkScript = [0x51]\<rparr>]"

definition exFundedTx :: MsgTx where
  "exFundedTx =
     \<lparr>Version = 1,
      TxIn = [\<lparr>PreviousOutPoint = \<lparr>Hash = [2], Index = 1\<rparr>, SignatureScript = [],
               Witness = [], Sequence = - 1\<rparr>],
      TxOut = [\<lparr>Value = 4000, PkScript = [0x51]\<rparr>, \<lparr>Value = 998, PkScript = [0x51]\<rparr>],
      LockTime = 0\<rparr>"

definition exToSpend :: MsgTx where
  "exToSpend =
     \<lparr>Version = 0, TxIn = [],
      TxOut = [\<lparr>Value = 0, PkScript = 0 # 20 # replicate 20 1\<rparr>], LockTime = 0\<rparr>"

definition exHint :: RawTxWitnessInput where
  "exHint =
     \<lparr>Txid = ''01'', Vout = 0,
      ScriptPubKey = ''00140101010101010101010101010101010101010101'', Amount = Some 0\<rparr>"

definition exCandidates :: "Utxo list" where
  "exCandidates =
     [\<lparr>UtxoAmount = 5000, UtxoOutPoint = \<lparr>Hash = [2], Index = 1\<rparr>, UtxoPkScript = [0x51],
       UtxoAddress = ''a2''\<rparr>,
      \<lparr>UtxoAmount = 3000, UtxoOutPoint = \<lparr>Hash = [1], Index = 0\<rparr>, UtxoPkScript = [0x51],
       UtxoAddress = ''a1''\<rparr>]"

definition exLargeOutputs :: "TxOut list" where
  "exLargeOutputs = [\<lparr>Value = 9000, PkScript = [0x51]\<rparr>]"

section \<open>Properties\<close>

lemmas TxConfStatus_defs =
  TxFoundMempool_def TxFoundIndex_def TxNotFoundIndex_def TxFoundManually_def
  TxNotFoundManually_def

subsection \<open>Sorting and selection\<close>

lemma mset_insertLess: "mset (insertLess lt x ys) = add_mset x (mset ys)"
  by (induction ys) auto

lemma mset_sortSort: "mset (sortSort lt xs) = mset xs"
  by (induction xs) (auto simp: mset_insertLess)

lemma set_insertLess: "set (insertLess lt x ys) = insert x (set ys)"
  by (induction ys) auto

lemma set_sortSort: "set (sortSort lt xs) = set xs"
  by (induction xs) (auto simp: set_insertLess)

lemma sorted_insertLess:
  fixes k :: "'a \<Rightarrow> 'b::linorder"
  assumes "sorted_wrt (\<lambda>a b. k b \<le> k a) ys"
  shows "sorted_wrt (\<lambda>a b. k b \<le> k a) (insertLess (\<lambda>a b. k b < k a) x ys)"
  using assms by (induction ys) (auto simp: set_insertLess)

lemma sorted_sortSort:
  fixes k :: "'a \<Rightarrow> 'b::linorder"
  shows "sorted_wrt (\<lambda>a b. k b \<le> k a) (sortSort (\<lambda>a b. k b < k a) xs)"
  by (induction xs) (auto intro: sorted_insertLess)

lemma sortedCandidates_by_key:
  "sortedCandidates xs = sortSort (\<lambda>a b. utxoKey b < utxoKey a) xs"
proof -
  have "sortReverse byAmount_Less = (\<lambda>a b. utxoKey b < utxoKey a)"
    by (simp add: fun_eq_iff sortReverse_def byAmount_Less_def)
  then show ?thesis by (simp add: sortedCandidates_def)
qed

lemma mset_sortedCandidates: "mset (sortedCandidates xs) = mset xs"
  by (simp add: sortedCandidates_def mset_sortSort)

lemma set_sortedCandidates: "set (sortedCandidates xs) = set xs"
  by (simp add: sortedCandidates_def set_sortSort)

lemma sorted_sortedCandidates:
  "sorted_wrt (\<lambda>a b. utxoKey b \<le> utxoKey a) (sortedCandidates xs)"
  unfolding sortedCandidates_by_key by (rule sorted_sortSort)

lemma keys_sortedCandidates:
  "rev (map utxoKey (sortedCandidates xs)) = sort (map utxoKey xs)"
proof -
  have "sorted (rev (map utxoKey (sortedCandidates xs)))"
    using sorted_sortedCandidates [of xs]
    by (simp add: sorted_wrt_rev sorted_wrt_map)
  moreover have "mset (rev (map utxoKey (sortedCandidates xs))) = mset (map utxoKey xs)"
    by (simp add: mset_sortedCandidates)
  ultimately show ?thesis
    using properties_for_sort [of "rev (map utxoKey (sortedCandidates xs))" "map utxoKey xs"]
    by simp
qed

lemma sortedCandidates_perm:
  assumes "mset xs = mset ys" and "inj_on utxoKey (set xs)"
  shows "sortedCandidates xs = sortedCandidates ys"
proof -
  have "mset (map utxoKey xs) = mset (map utxoKey ys)"
    using assms(1) by simp
  then have "sort (map utxoKey xs) = sort (map utxoKey ys)"
    using properties_for_sort [of "sort (map utxoKey ys)" "map utxoKey xs"] by simp
  then have "rev (map utxoKey (sortedCandidates xs)) = rev (map utxoKey (sortedCandidates ys))"
    by (simp add: keys_sortedCandidates)
  then have keys: "map utxoKey (sortedCandidates xs) = map utxoKey (sortedCandidates ys)"
    by simp
  have "set ys = set xs"
    using assms(1) by (metis set_mset_mset)
  then have "inj_on utxoKey (set (sortedCandidates xs) \<union> set (sortedCandidates ys))"
    using assms(2) by (simp add: set_sortedCandidates)
  then show ?thesis
    using keys by (simp add: inj_on_map_eq_map)
qed

lemma totalValue_append: "totalValue (xs @ ys) = totalValue xs + totalValue ys"
  by (simp add: totalValue_def)

lemma totalValue_mset: "mset xs = mset ys \<Longrightarrow> totalValue xs = totalValue ys"
proof -
  assume "mset xs = mset ys"
  then have "sum_mset (image_mset UtxoAmount (mset xs)) = sum_mset (image_mset UtxoAmount (mset ys))"
    by simp
  then show ?thesis
    by (simp add: totalValue_def flip: sum_mset_sum_list)
qed

lemma totalValue_nonneg: "\<forall>u\<in>set xs. 0 \<le> UtxoAmount u \<Longrightarrow> 0 \<le> totalValue xs"
  by (auto simp: totalValue_def intro!: sum_list_nonneg)

lemma totalValue_take_le:
  assumes "\<forall>u\<in>set xs. 0 \<le> UtxoAmount u"
  shows "totalValue (take j xs) \<le> totalValue xs"
proof -
  have "\<forall>u\<in>set (drop j xs). 0 \<le> UtxoAmount u"
    using assms by (meson in_set_dropD)
  then have "0 \<le> totalValue (drop j xs)"
    by (rule totalValue_nonneg)
  moreover have "totalValue xs = totalValue (take j xs) + totalValue (drop j xs)"
    by (simp flip: totalValue_append)
  ultimately show ?thesis by simp
qed

lemma minimalFee_le: "k \<le> n \<Longrightarrow> minimalFee feeOf n \<le> feeOf k"
proof (induction n)
  case 0
  then show ?case by simp
next
  case (Suc n)
  then show ?case by (cases "k = Suc n") auto
qed

lemma accumulateInputs_Some:
  "accumulateInputs feeOf req sel rest = Some s \<Longrightarrow>
   \<exists>j\<le>length rest. s = sel @ take j rest \<and> req + feeOf (length s) \<le> totalValue s"
proof (induction feeOf req sel rest rule: accumulateInputs.induct)
  case (1 feeOf requested sel)
  then show ?case by (auto split: if_splits)
next
  case (2 feeOf requested sel u us)
  show ?case
  proof (cases "requested + feeOf (length sel) \<le> totalValue sel")
    case True
    with 2 have "s = sel" by simp
    with True show ?thesis by (intro exI [of _ 0]) simp
  next
    case False
    with 2 obtain j where "j \<le> length us" "s = (sel @ [u]) @ take j us"
      "requested + feeOf (length s) \<le> totalValue s"
      by auto
    then show ?thesis by (intro exI [of _ "Suc j"]) simp
  qed
qed

lemma accumulateInputs_None:
  assumes "\<forall>j\<le>length rest. totalValue (sel @ take j rest) < req + feeOf (length sel + j)"
  shows "accumulateInputs feeOf req sel rest = None"
proof (cases "accumulateInputs feeOf req sel rest")
  case None
  then show ?thesis .
next
  case (Some s)
  then obtain j where "j \<le> length rest" "s = sel @ take j rest"
    "req + feeOf (length s) \<le> totalValue s"
    using accumulateInputs_Some by blast
  moreover from this have "length s = length sel + j" by simp
  ultimately have "totalValue s < req + feeOf (length s)"
    using assms by simp
  with \<open>req + feeOf (length s) \<le> totalValue s\<close> show ?thesis by simp
qed

lemma CreateTransaction_candidates:
  assumes "Client_ListUnspent (Client w) = Inr results"
  shows "CreateTransaction L R w outputs rate addr tr =
           ((case PayToAddrScript L addr of
               Inl err \<Rightarrow> Inl err
             | Inr cs \<Rightarrow>
                 buildTxFromOutputs R
                   (sortedCandidates (map resultToUtxo (filter Spendable results))) outputs rate cs),
            tr @ [CallListUnspent])"
  using assms by (simp add: CreateTransaction_def resultsToUtxos_def split: sum.splits)

lemma inj_on_utxoKey:
  assumes "inj_on UnspentOutPoint (set results)"
  shows "inj_on utxoKey (set (map resultToUtxo (filter Spendable results)))"
proof (rule inj_onI)
  fix a b
  assume a: "a \<in> set (map resultToUtxo (filter Spendable results))"
    and b: "b \<in> set (map resultToUtxo (filter Spendable results))"
    and eq: "utxoKey a = utxoKey b"
  from a obtain r where r: "r \<in> set results" "a = resultToUtxo r" by auto
  from b obtain r' where r': "r' \<in> set results" "b = resultToUtxo r'" by auto
  from eq r r' have "Hash (UnspentOutPoint r) = Hash (UnspentOutPoint r')"
    "Index (UnspentOutPoint r) = Index (UnspentOutPoint r')"
    by (simp_all add: utxoKey_def outpointKey_def resultToUtxo_def)
  then have "UnspentOutPoint r = UnspentOutPoint r'"
    by simp
  with assms r r' have "r = r'" by (auto dest: inj_onD)
  with r r' show "a = b" by simp
qed

lemma accumulateInputs_first_cover:
  "k \<le> length rest \<Longrightarrow> req + feeOf (length sel + k) \<le> totalValue (sel @ take k rest) \<Longrightarrow>
   \<exists>j\<le>k. accumulateInputs feeOf req sel rest = Some (sel @ take j rest)"
proof (induction rest arbitrary: sel k)
  case Nil
  then show ?case by simp
next
  case (Cons u us)
  show ?case
  proof (cases "req + feeOf (length sel) \<le> totalValue sel")
    case True
    then show ?thesis by (intro exI [of _ 0]) simp
  next
    case False
    with Cons.prems obtain k' where k: "k = Suc k'"
      by (cases k) auto
    with Cons.prems have "k' \<le> length us"
      "req + feeOf (length (sel @ [u]) + k') \<le> totalValue ((sel @ [u]) @ take k' us)"
      by simp_all
    then obtain j where "j \<le> k'"
      "accumulateInputs feeOf req (sel @ [u]) us = Some ((sel @ [u]) @ take j us)"
      using Cons.IH by blast
    with False k show ?thesis by (intro exI [of _ "Suc j"]) simp
  qed
qed

lemma sortedCandidates_Nil_iff: "sortedCandidates xs = [] \<longleftrightarrow> xs = []"
  by (metis mset_sortedCandidates mset_zero_iff)

lemma length_sortedCandidates: "length (sortedCandidates xs) = length xs"
  by (metis mset_sortedCandidates size_mset)

lemma invoke_controller: "fst (invoke L R st c) = fst st"
  by (cases st; cases c) simp_all

lemma lifetime_controller: "fst (lifetime L R st calls) = fst st"
  unfolding lifetime_def
  by (induction calls arbitrary: st) (simp_all add: invoke_controller)

subsection \<open>Evaluating the example\<close>

lemmas ex_defs =
  exController_def exClient_def exLibs_def exRules_def exUnspent_def exTx_def exSignedTx_def
  exLockedController_def exEmptyController_def exReversedController_def

lemmas builder_defs =
  CreateTransaction_def resultsToUtxos_def resultToUtxo_def sortedCandidates_def
  sortReverse_def byAmount_Less_def utxoKey_def outpointKey_def buildTxFromOutputs_def
  requiredFee_def feeForSize_def totalValue_def sumOutputValues_def utxoToTxIn_def

lemma exCreate:
  "CreateTransaction exLibs exRules (exController b) exOutputs 10 (Address ''change'') [] =
     (Inr exFundedTx, [CallListUnspent])"
  by (simp add: builder_defs ex_defs exOutputs_def exFundedTx_def Let_def)

lemma hex_examples:
  "EncodeToString [1] = ''01''"
  "EncodeToString (replicate 20 1) = ''0101010101010101010101010101010101010101''"
  "hextable ! 0 = CHR ''0''" "hextable ! Suc 0 = CHR ''1''" "hextable ! 4 = CHR ''4''"
proof -
  show "EncodeToString [1] = ''01''"
    by code_simp
  show "EncodeToString (replicate 20 1) = ''0101010101010101010101010101010101010101''"
    by code_simp
  show "hextable ! 0 = CHR ''0''" "hextable ! Suc 0 = CHR ''1''" "hextable ! 4 = CHR ''4''"
    by (simp_all add: hextable_def eval_nat_numeral)
qed

lemma exHint_eq:
  "exHint = \<lparr>Txid = HashString exLibs (TxHash exLibs exToSpend), Vout = 0,
             ScriptPubKey = EncodeToString (PkScript \<lparr>Value = 0, PkScript = 0 # 20 # replicate 20 1\<rparr>),
             Amount = Some 0\<rparr>"
  by (simp add: exHint_def exLibs_def exToSpend_def hex_examples)

lemma exCandidates_eq:
  "sortedCandidates (map resultToUtxo (filter Spendable exUnspent)) = exCandidates"
  by (simp add: builder_defs exUnspent_def exCandidates_def)

lemma exListing:
  "Client_ListUnspent (Client (exController b)) = Inr exUnspent"
  "Client_ListUnspent (Client exReversedController) = Inr (rev exUnspent)"
  "Client_ListUnspent (Client exEmptyController) = Inr []"
  by (simp_all add: exController_def exClient_def exReversedController_def exEmptyController_def)

lemma exChange:
  "PayToAddrScript exLibs (Address ''change'') = Inr [0x51]"
  "PayToAddrScript exLibs (Address []) = Inl (CollaboratorError ''unsupported address type'')"
  by (simp_all add: exLibs_def)

subsection \<open>The claims\<close>

text \<open>
  C1. The confirmation status mapper returns, for every raw backend state: NotFound for
  the index-based and the manual "not found" states, InMempool for "found in mempool",
  InChain for "found via index" and "found manually"; for every state outside these
  five it panics and returns no status.
\<close>

theorem C1_status_mapper_total_table:
  "nofitierStateToWalletState state =
     (if state = TxNotFoundIndex \<or> state = TxNotFoundManually then Returns TxNotFound
      else if state = TxFoundMempool then Returns TxInMemPool
      else if state = TxFoundIndex \<or> state = TxFoundManually then Returns TxInChain
      else Panics (UnknownNotifierState state))"
  by (simp add: nofitierStateToWalletState_def TxConfStatus_defs)

text \<open>
  C2, amended. For every backend value that is neither the bitcoind nor the btcwallet
  variant, \<open>SignRawTransaction\<close> fails with the invalid-backend error and issues no
  remote call; \<open>TxDetails\<close> issues no remote call either and fails with the
  invalid-backend error whenever the confirmation request can be built from its
  arguments, and with the error of building the request otherwise. Which remote calls
  an operation issues depends, among the controller's fields, on the backend field only:
  controllers with the same backend field issue the same calls.
\<close>

theorem C2_unsupported_backend:
  "(backend w \<noteq> BitcoindWalletBackend \<and> backend w \<noteq> BtcwalletWalletBackend \<longrightarrow>
      SignRawTransaction w tx tr = ((None, False, Some InvalidBitcoinBackend), tr) \<and>
      TxDetails L w txHash pkScript tr =
        (case NewConfRequest L txHash pkScript of
           Inl err \<Rightarrow> (Returns (None, TxNotFound, Some err), tr)
         | Inr req \<Rightarrow> (Returns (None, TxNotFound, Some InvalidBitcoinBackend), tr))) \<and>
   (backend w' = backend w \<longrightarrow>
      snd (SignRawTransaction w' tx tr) = snd (SignRawTransaction w tx tr) \<and>
      snd (TxDetails L w' txHash pkScript tr) = snd (TxDetails L w txHash pkScript tr))"
proof (intro conjI impI)
  assume other: "backend w \<noteq> BitcoindWalletBackend \<and> backend w \<noteq> BtcwalletWalletBackend"
  then show "SignRawTransaction w tx tr = ((None, False, Some InvalidBitcoinBackend), tr)"
    by (cases "backend w") (simp_all add: SignRawTransaction_def)
  from other show "TxDetails L w txHash pkScript tr =
        (case NewConfRequest L txHash pkScript of
           Inl err \<Rightarrow> (Returns (None, TxNotFound, Some err), tr)
         | Inr req \<Rightarrow> (Returns (None, TxNotFound, Some InvalidBitcoinBackend), tr))"
    by (cases "backend w") (simp_all add: TxDetails_def split: sum.splits)
next
  have calls: "snd (getTxDetails v req msg tr) = tr @ [CallConfDetailsFromTxIndex req msg]"
    for v req msg
    by (simp add: getTxDetails_def split: prod.splits option.splits outcome.splits)
  assume same: "backend w' = backend w"
  then show "snd (SignRawTransaction w' tx tr) = snd (SignRawTransaction w tx tr)"
    by (cases "backend w") (simp_all add: SignRawTransaction_def)
  from same show "snd (TxDetails L w' txHash pkScript tr) = snd (TxDetails L w txHash pkScript tr)"
    by (cases "backend w") (simp_all add: TxDetails_def calls split: sum.splits)
qed

theorem C2_unsupported_backend_witness:
  "SignRawTransaction (exController (OtherWalletBackend 7)) exTx [] =
     ((None, False, Some InvalidBitcoinBackend), []) \<and>
   TxDetails exLibs (exController (OtherWalletBackend 7)) None [0x51] [] =
     (Returns (None, TxNotFound, Some InvalidBitcoinBackend), [])"
  using C2_unsupported_backend [of "exController (OtherWalletBackend 7)" exTx "[]" exLibs None "[0x51]"
      "exController (OtherWalletBackend 7)"]
  by (simp add: exController_def exLibs_def)

theorem C2_request_error_precedes_dispatch:
  "backend (exController (OtherWalletBackend 7)) \<noteq> BitcoindWalletBackend \<and>
   backend (exController (OtherWalletBackend 7)) \<noteq> BtcwalletWalletBackend \<and>
   TxDetails exLibs (exController (OtherWalletBackend 7)) None [] [] =
     (Returns (None, TxNotFound, Some (CollaboratorError ''unsupported script type'')), []) \<and>
   CollaboratorError ''unsupported script type'' \<noteq> InvalidBitcoinBackend"
  by (simp add: TxDetails_def exController_def exLibs_def)

text \<open>
  C3. \<open>CreateAndSignTx\<close> fails with an error whenever the sign call reports that not all
  inputs were signed, and returns a signed transaction only when the sign call reported
  all inputs signed and no error. \<open>SignRawTransaction\<close> itself hands back what the
  backend's signing call returned, transaction, flag and error unchanged: a partial
  signing is a \<open>False\<close> flag beside the transaction, not an error.
\<close>

theorem C3_partial_signing:
  "(CreateTransaction L R w outputs rate addr tr = (Inr tx, tr1) \<and>
    fst (SignRawTransaction w tx tr1) = (ftx, False, err) \<longrightarrow>
      fst (CreateAndSignTx L R w outputs rate addr tr) =
        Inl (case err of Some e \<Rightarrow> e | None \<Rightarrow> NotAllInputsSigned)) \<and>
   (fst (CreateAndSignTx L R w outputs rate addr tr) = Inr ftx' \<longrightarrow>
      (\<exists>tx' tr1'. CreateTransaction L R w outputs rate addr tr = (Inr tx', tr1') \<and>
         fst (SignRawTransaction w tx' tr1') = (ftx', True, None))) \<and>
   (backend w = BitcoindWalletBackend \<longrightarrow>
      SignRawTransaction w tx0 tr0 =
        (Client_SignRawTransactionWithWallet (Client w) tx0,
         tr0 @ [CallSignRawTransactionWithWallet tx0])) \<and>
   (backend w = BtcwalletWalletBackend \<longrightarrow>
      SignRawTransaction w tx0 tr0 =
        (Client_SignRawTransaction (Client w) tx0, tr0 @ [CallSignRawTransaction tx0]))"
proof (intro conjI impI)
  assume "CreateTransaction L R w outputs rate addr tr = (Inr tx, tr1) \<and>
    fst (SignRawTransaction w tx tr1) = (ftx, False, err)"
  then show "fst (CreateAndSignTx L R w outputs rate addr tr) =
        Inl (case err of Some e \<Rightarrow> e | None \<Rightarrow> NotAllInputsSigned)"
    by (cases "SignRawTransaction w tx tr1") (auto simp: CreateAndSignTx_def split: option.splits)
next
  assume "fst (CreateAndSignTx L R w outputs rate addr tr) = Inr ftx'"
  then show "\<exists>tx' tr1'. CreateTransaction L R w outputs rate addr tr = (Inr tx', tr1') \<and>
         fst (SignRawTransaction w tx' tr1') = (ftx', True, None)"
    by (auto simp: CreateAndSignTx_def split: prod.splits sum.splits option.splits if_splits)
next
  assume "backend w = BitcoindWalletBackend"
  then show "SignRawTransaction w tx0 tr0 =
        (Client_SignRawTransactionWithWallet (Client w) tx0,
         tr0 @ [CallSignRawTransactionWithWallet tx0])"
    by (simp add: SignRawTransaction_def)
next
  assume "backend w = BtcwalletWalletBackend"
  then show "SignRawTransaction w tx0 tr0 =
        (Client_SignRawTransaction (Client w) tx0, tr0 @ [CallSignRawTransaction tx0])"
    by (simp add: SignRawTransaction_def)
qed

theorem C3_partial_signing_witness:
  "fst (CreateAndSignTx exLibs exRules (exController BtcwalletWalletBackend) exOutputs 10
          (Address ''change'') []) = Inl NotAllInputsSigned \<and>
   SignRawTransaction (exController BtcwalletWalletBackend) exFundedTx [CallListUnspent] =
     ((Some exFundedTx, False, None), [CallListUnspent, CallSignRawTransaction exFundedTx]) \<and>
   fst (CreateAndSignTx exLibs exRules (exController BitcoindWalletBackend) exOutputs 10
          (Address ''change'') []) = Inr (Some exFundedTx) \<and>
   fst (SignRawTransaction (exController BitcoindWalletBackend) exFundedTx [CallListUnspent]) =
     (Some exFundedTx, True, None)"
proof -
  have sign1: "SignRawTransaction (exController BtcwalletWalletBackend) exFundedTx [CallListUnspent] =
     ((Some exFundedTx, False, None), [CallListUnspent, CallSignRawTransaction exFundedTx])"
    by (simp add: SignRawTransaction_def exController_def exClient_def)
  have sign2: "fst (SignRawTransaction (exController BitcoindWalletBackend) exFundedTx [CallListUnspent]) =
     (Some exFundedTx, True, None)"
    by (simp add: SignRawTransaction_def exController_def exClient_def)
  have sign2': "SignRawTransaction (exController BitcoindWalletBackend) exFundedTx [CallListUnspent] =
     ((Some exFundedTx, True, None), [CallListUnspent, CallSignRawTransactionWithWallet exFundedTx])"
    by (simp add: SignRawTransaction_def exController_def exClient_def)
  have both2: "fst (CreateAndSignTx exLibs exRules (exController BitcoindWalletBackend) exOutputs 10
          (Address ''change'') []) = Inr (Some exFundedTx)"
    by (simp add: CreateAndSignTx_def exCreate sign2')
  have both1: "fst (CreateAndSignTx exLibs exRules (exController BtcwalletWalletBackend) exOutputs 10
          (Address ''change'') []) = Inl NotAllInputsSigned"
    using C3_partial_signing [of exLibs exRules "exController BtcwalletWalletBackend" exOutputs 10
        "Address ''change''" "[]" exFundedTx "[CallListUnspent]" "Some exFundedTx" None]
      exCreate [of BtcwalletWalletBackend] sign1
    by simp
  show ?thesis using sign1 sign2 both1 both2 by simp
qed

text \<open>
  C4. For every message and address whose BIP322 to-spend transaction has an output 0
  with a script that is not pay-to-witness-pubkey-hash, \<open>SignBip322NativeSegwit\<close> fails
  with the native-segwit-only error and the session has seen no call: the check comes
  before the signing call.
\<close>

theorem C4_non_segwit_rejected_before_signing:
  assumes "GetToSpendTx L msg address = Inr toSpend"
    and "TxOut toSpend = out0 # rest"
    and "\<not> IsPayToWitnessPubKeyHash L (PkScript out0)"
  shows "SignBip322NativeSegwit L w msg address tr = (Returns (Inl OnlyNativeSegwit), tr)"
  using assms by (simp add: SignBip322NativeSegwit_def)

theorem C4_non_segwit_witness:
  "SignBip322NativeSegwit exLibs (exController BitcoindWalletBackend) [1, 2] (Address ''legacy'') [] =
     (Returns (Inl OnlyNativeSegwit), [])"
  using C4_non_segwit_rejected_before_signing
    [of exLibs "[1, 2]" "Address ''legacy''"
        "\<lparr>Version = 0, TxIn = [], TxOut = [\<lparr>Value = 0, PkScript = [0x76, 0xa9]\<rparr>], LockTime = 0\<rparr>"
        "\<lparr>Value = 0, PkScript = [0x76, 0xa9]\<rparr>" "[]" "exController BitcoindWalletBackend" "[]"]
  by (simp add: exLibs_def)

text \<open>
  C5, amended. Past the script check, \<open>SignBip322NativeSegwit\<close> issues exactly one
  remote call, the signing call with explicit input hints, on the to-sign transaction
  and one hint: the printed hash of the to-spend transaction, output index 0, the
  hex-encoded script of its output 0 and the amount 0. If that call returns an error,
  the operation fails with that error wrapped as a signing failure; otherwise, if the
  signer reports that not all inputs were signed, it fails with the error that names the
  address as not under wallet control; otherwise it returns the witness of input 0 of
  the signed transaction (and panics if the signer returned no such input).
\<close>

theorem C5_bip322_signing_call:
  assumes "GetToSpendTx L msg address = Inr toSpend"
    and "TxOut toSpend = out0 # rest"
    and "IsPayToWitnessPubKeyHash L (PkScript out0)"
    and "hint = \<lparr>Txid = HashString L (TxHash L toSpend), Vout = 0,
                  ScriptPubKey = EncodeToString (PkScript out0), Amount = Some 0\<rparr>"
    and "Client_SignRawTransactionWithWallet2 (Client w) (GetToSignTx L toSpend) [hint] =
           (stx, allSigned, err)"
  shows "SignBip322NativeSegwit L w msg address tr =
           ((case err of
               Some e \<Rightarrow> Returns (Inl (FailedToSignRaw e))
             | None \<Rightarrow>
                 if \<not> allSigned then Returns (Inl (NotUnderWalletControl address))
                 else (case stx of
                         None \<Rightarrow> Panics NilDereference
                       | Some s \<Rightarrow>
                           (case TxIn s of
                              [] \<Rightarrow> Panics IndexOutOfRange
                            | in0 # _ \<Rightarrow> Returns (Inr (Witness in0))))),
            tr @ [CallSignRawTransactionWithWallet2 (GetToSignTx L toSpend) [hint]])"
  using assms
  by (simp add: SignBip322NativeSegwit_def Let_def split: option.splits list.splits)

theorem C5_bip322_signing_witness:
  "SignBip322NativeSegwit exLibs (exController BitcoindWalletBackend) [1, 2] (Address ''segwit'') [] =
     (Returns (Inr [[0x30, 0x01], [0x02, 0x03]]),
      [CallSignRawTransactionWithWallet2 exToSpend [exHint]])"
proof -
  have spend: "GetToSpendTx exLibs [1, 2] (Address ''segwit'') = Inr exToSpend"
    by (simp add: exLibs_def exToSpend_def)
  have out0: "TxOut exToSpend = \<lparr>Value = 0, PkScript = 0 # 20 # replicate 20 1\<rparr> # []"
    by (simp add: exToSpend_def)
  have segwit: "IsPayToWitnessPubKeyHash exLibs
      (PkScript \<lparr>Value = 0, PkScript = 0 # 20 # replicate 20 1\<rparr>)"
    by (simp add: exLibs_def)
  have sign: "Client_SignRawTransactionWithWallet2 (Client (exController BitcoindWalletBackend))
      (GetToSignTx exLibs exToSpend) [exHint] = (Some exSignedTx, True, None)"
    by (simp add: exController_def exClient_def)
  have same: "GetToSignTx exLibs exToSpend = exToSpend"
    by (simp add: exLibs_def exToSpend_def)
  show ?thesis
    using C5_bip322_signing_call [OF spend out0 segwit exHint_eq sign, of "[]"]
    by (simp add: same exSignedTx_def)
qed

theorem C5_signing_error_is_a_third_outcome:
  "Client_SignRawTransactionWithWallet2 (Client exLockedController) exToSpend [exHint] =
     (None, False, Some (CollaboratorError ''wallet is locked'')) \<and>
   SignBip322NativeSegwit exLibs exLockedController [1, 2] (Address ''segwit'') [] =
     (Returns (Inl (FailedToSignRaw (CollaboratorError ''wallet is locked''))),
      [CallSignRawTransactionWithWallet2 exToSpend [exHint]]) \<and>
   FailedToSignRaw (CollaboratorError ''wallet is locked'') \<noteq>
     NotUnderWalletControl (Address ''segwit'')"
  by (simp add: SignBip322NativeSegwit_def exLibs_def exLockedController_def exClient_def
      exToSpend_def exHint_def hex_examples)

text \<open>
  C6 (builder parts modelled from the specification). For a fixed snapshot of unspent
  outputs, in which an outpoint identifies its record, \<open>CreateTransaction\<close> hands to the
  builder exactly the spendable entries, ordered by value, largest first, entries of
  equal value ordered by outpoint. The candidates, and with them the result, are the
  same for every call over the snapshot, in whatever order the backend lists it.
\<close>

theorem C6_candidates_sorted_deterministic:
  assumes "Client_ListUnspent (Client w) = Inr results"
    and "Client_ListUnspent (Client w') = Inr results'"
    and "mset results' = mset results"
    and "inj_on UnspentOutPoint (set results)"
    and "cands = sortedCandidates (map resultToUtxo (filter Spendable results))"
  shows "fst (CreateTransaction L R w outputs rate addr tr) =
           (case PayToAddrScript L addr of
              Inl err \<Rightarrow> Inl err
            | Inr cs \<Rightarrow> buildTxFromOutputs R cands outputs rate cs) \<and>
         set cands = resultToUtxo ` {r \<in> set results. Spendable r} \<and>
         sorted_wrt
           (\<lambda>a b. UtxoAmount b < UtxoAmount a \<or>
                  UtxoAmount b = UtxoAmount a \<and>
                  outpointKey (UtxoOutPoint b) \<le> outpointKey (UtxoOutPoint a)) cands \<and>
         sortedCandidates (map resultToUtxo (filter Spendable results')) = cands \<and>
         fst (CreateTransaction L R w' outputs rate addr tr') =
           fst (CreateTransaction L R w outputs rate addr tr)"
proof -
  have perm: "sortedCandidates (map resultToUtxo (filter Spendable results')) = cands"
  proof -
    have "mset (map resultToUtxo (filter Spendable results)) =
          mset (map resultToUtxo (filter Spendable results'))"
      using assms(3) by simp
    then have "sortedCandidates (map resultToUtxo (filter Spendable results)) =
               sortedCandidates (map resultToUtxo (filter Spendable results'))"
      using inj_on_utxoKey [OF assms(4)] by (rule sortedCandidates_perm)
    then show ?thesis
      by (simp add: assms(5))
  qed
  have order: "sorted_wrt
           (\<lambda>a b. UtxoAmount b < UtxoAmount a \<or>
                  UtxoAmount b = UtxoAmount a \<and>
                  outpointKey (UtxoOutPoint b) \<le> outpointKey (UtxoOutPoint a)) cands"
  proof -
    have "(\<lambda>a b. utxoKey b \<le> utxoKey a) =
          (\<lambda>a b. UtxoAmount b < UtxoAmount a \<or>
                  UtxoAmount b = UtxoAmount a \<and>
                  outpointKey (UtxoOutPoint b) \<le> outpointKey (UtxoOutPoint a))"
      by (auto simp: fun_eq_iff utxoKey_def)
    then show ?thesis
      using sorted_sortedCandidates [of "map resultToUtxo (filter Spendable results)"]
      by (simp add: assms(5))
  qed
  have members: "set cands = resultToUtxo ` {r \<in> set results. Spendable r}"
    by (simp add: assms(5) set_sortedCandidates)
  have first: "fst (CreateTransaction L R w outputs rate addr tr) =
           (case PayToAddrScript L addr of
              Inl err \<Rightarrow> Inl err
            | Inr cs \<Rightarrow> buildTxFromOutputs R cands outputs rate cs)"
    by (simp add: CreateTransaction_candidates [OF assms(1)] assms(5) cong: sum.case_cong)
  have second: "fst (CreateTransaction L R w' outputs rate addr tr') =
           (case PayToAddrScript L addr of
              Inl err \<Rightarrow> Inl err
            | Inr cs \<Rightarrow> buildTxFromOutputs R cands outputs rate cs)"
    by (simp add: CreateTransaction_candidates [OF assms(2)] perm cong: sum.case_cong)
  show ?thesis
    using perm order members first second by simp
qed

theorem C6_candidates_witness:
  "fst (CreateTransaction exLibs exRules (exController BitcoindWalletBackend) exOutputs 10
          (Address ''change'') []) =
     buildTxFromOutputs exRules exCandidates exOutputs 10 [0x51] \<and>
   sortedCandidates (map resultToUtxo (filter Spendable (rev exUnspent))) = exCandidates \<and>
   fst (CreateTransaction exLibs exRules exReversedController exOutputs 10 (Address ''change'') []) =
     fst (CreateTransaction exLibs exRules (exController BitcoindWalletBackend) exOutputs 10
            (Address ''change'') [])"
proof -
  have same: "mset (rev exUnspent) = mset exUnspent"
    by simp
  have inj: "inj_on UnspentOutPoint (set exUnspent)"
    by (simp add: exUnspent_def)
  show ?thesis
    using C6_candidates_sorted_deterministic
      [OF exListing(1) [of BitcoindWalletBackend] exListing(2) same inj
          exCandidates_eq [symmetric],
       where L = exLibs and R = exRules and outputs = exOutputs and rate = 10
         and addr = "Address ''change''" and tr = "[]" and tr' = "[]"]
    by (simp add: exChange)
qed

text \<open>
  C7, amended (builder modelled from the specification). When the backend lists the
  unspent outputs and the change address converts to a script, \<open>CreateTransaction\<close>
  fails with \<open>NoUsableFunds\<close> if no listed output is spendable, and fails with
  \<open>InsufficientFunds\<close> if there are spendable outputs, none of negative value, whose
  total value is below the requested value plus the minimal fee. In both cases the only
  remote call is the read-only listing: nothing is broadcast or persisted.
\<close>

theorem C7_funding_failures:
  assumes "Client_ListUnspent (Client w) = Inr results"
    and "PayToAddrScript L addr = Inr cs"
    and "utxos = map resultToUtxo (filter Spendable results)"
  shows "(utxos = [] \<longrightarrow>
            CreateTransaction L R w outputs rate addr tr =
              (Inl NoUsableFunds, tr @ [CallListUnspent])) \<and>
         (utxos \<noteq> [] \<and> (\<forall>u\<in>set utxos. 0 \<le> UtxoAmount u) \<and>
          totalValue utxos <
            sumOutputValues outputs +
            minimalFee (requiredFee R rate outputs cs) (length utxos) \<longrightarrow>
            CreateTransaction L R w outputs rate addr tr =
              (Inl InsufficientFunds, tr @ [CallListUnspent]))"
proof (intro conjI impI)
  have run: "CreateTransaction L R w outputs rate addr tr =
      (buildTxFromOutputs R (sortedCandidates utxos) outputs rate cs, tr @ [CallListUnspent])"
    by (simp add: CreateTransaction_candidates [OF assms(1)] assms(2) assms(3))
  {
    assume "utxos = []"
    then show "CreateTransaction L R w outputs rate addr tr =
        (Inl NoUsableFunds, tr @ [CallListUnspent])"
      by (simp add: run sortedCandidates_def buildTxFromOutputs_def)
  next
    let ?cands = "sortedCandidates utxos"
    let ?feeOf = "requiredFee R rate outputs cs"
    assume poor: "utxos \<noteq> [] \<and> (\<forall>u\<in>set utxos. 0 \<le> UtxoAmount u) \<and>
      totalValue utxos < sumOutputValues outputs + minimalFee ?feeOf (length utxos)"
    have nonneg: "\<forall>u\<in>set ?cands. 0 \<le> UtxoAmount u"
      using poor by (simp add: set_sortedCandidates)
    have total: "totalValue ?cands = totalValue utxos"
      by (rule totalValue_mset) (rule mset_sortedCandidates)
    have "totalValue ([] @ take j ?cands) < sumOutputValues outputs + ?feeOf (length [] + j)"
      if "j \<le> length ?cands" for j
    proof -
      have "totalValue (take j ?cands) \<le> totalValue utxos"
        using totalValue_take_le [OF nonneg, of j] total by simp
      moreover have "minimalFee ?feeOf (length utxos) \<le> ?feeOf j"
        using that by (intro minimalFee_le) (simp add: length_sortedCandidates)
      ultimately show ?thesis using poor by simp
    qed
    then have "accumulateInputs ?feeOf (sumOutputValues outputs) [] ?cands = None"
      by (intro accumulateInputs_None) blast
    moreover have "?cands \<noteq> []"
      using poor by (simp add: sortedCandidates_Nil_iff)
    ultimately show "CreateTransaction L R w outputs rate addr tr =
        (Inl InsufficientFunds, tr @ [CallListUnspent])"
      by (simp add: run buildTxFromOutputs_def)
  }
qed

theorem C7_funding_failures_witness:
  "CreateTransaction exLibs exRules exEmptyController exOutputs 10 (Address ''change'') [] =
     (Inl NoUsableFunds, [CallListUnspent]) \<and>
   CreateTransaction exLibs exRules (exController BitcoindWalletBackend) exLargeOutputs 10
       (Address ''change'') [] =
     (Inl InsufficientFunds, [CallListUnspent])"
proof -
  have poor: "map resultToUtxo (filter Spendable exUnspent) \<noteq> [] \<and>
      (\<forall>u\<in>set (map resultToUtxo (filter Spendable exUnspent)). 0 \<le> UtxoAmount u) \<and>
      totalValue (map resultToUtxo (filter Spendable exUnspent)) <
        sumOutputValues exLargeOutputs +
        minimalFee (requiredFee exRules 10 exLargeOutputs [0x51])
          (length (map resultToUtxo (filter Spendable exUnspent)))"
    by (simp add: exUnspent_def resultToUtxo_def totalValue_def sumOutputValues_def
        exLargeOutputs_def requiredFee_def feeForSize_def exRules_def)
  have empty: "map resultToUtxo (filter Spendable []) = []"
    by simp
  show ?thesis
    using C7_funding_failures [OF exListing(3) exChange(1) refl,
        where R = exRules and outputs = exOutputs and rate = 10 and tr = "[]"]
      C7_funding_failures [OF exListing(1) [of BitcoindWalletBackend] exChange(1) refl,
        where R = exRules and outputs = exLargeOutputs and rate = 10 and tr = "[]"]
      poor empty
    by simp
qed

theorem C7_other_errors_come_first:
  "filter Spendable ([]::ListUnspentResult list) = [] \<and>
   CreateTransaction exLibs exRules exEmptyController exOutputs 10 (Address []) [] =
     (Inl (CollaboratorError ''unsupported address type''), [CallListUnspent]) \<and>
   totalValue [] <
     sumOutputValues exOutputs + minimalFee (requiredFee exRules 10 exOutputs [0x51]) 0 \<and>
   CreateTransaction exLibs exRules exEmptyController exOutputs 10 (Address ''change'') [] =
     (Inl NoUsableFunds, [CallListUnspent])"
  by (simp add: builder_defs ex_defs exOutputs_def)

text \<open>
  C8, amended (builder modelled from the specification). When the backend lists the
  unspent outputs, the change address converts to a script, and the \<open>k \<ge> 1\<close> largest
  spendable outputs cover the requested value plus the fee implied by the size of a
  transaction spending \<open>k\<close> inputs, \<open>CreateTransaction\<close> succeeds. It spends the
  \<open>n \<le> k\<close> largest outputs; the remainder after the outputs and the fee for \<open>n\<close> inputs
  is not negative; a change output for the remainder is appended unless the remainder
  is below the dust threshold, in which case no change output is emitted; the inputs'
  value is the outputs' value (change included) plus the fee, plus the omitted remainder
  when it was below the dust threshold.
\<close>

theorem C8_funded_transaction_balances:
  assumes "Client_ListUnspent (Client w) = Inr results"
    and "PayToAddrScript L addr = Inr cs"
    and "cands = sortedCandidates (map resultToUtxo (filter Spendable results))"
    and "0 < k" and "k \<le> length cands"
    and "sumOutputValues outputs + requiredFee R rate outputs cs k \<le> totalValue (take k cands)"
  shows "\<exists>tx n. CreateTransaction L R w outputs rate addr tr = (Inr tx, tr @ [CallListUnspent]) \<and>
           n \<le> k \<and> TxIn tx = map utxoToTxIn (take n cands) \<and>
           (let fee = requiredFee R rate outputs cs n;
                remainder = totalValue (take n cands) - sumOutputValues outputs - fee
            in 0 \<le> remainder \<and>
               TxOut tx = outputs @
                 (if remainder < dustThreshold R then []
                  else [\<lparr>Value = remainder, PkScript = cs\<rparr>]) \<and>
               totalValue (take n cands) =
                 sumOutputValues (TxOut tx) + fee +
                 (if remainder < dustThreshold R then remainder else 0))"
proof -
  let ?feeOf = "requiredFee R rate outputs cs"
  let ?req = "sumOutputValues outputs"
  have run: "CreateTransaction L R w outputs rate addr tr =
      (buildTxFromOutputs R cands outputs rate cs, tr @ [CallListUnspent])"
    by (simp add: CreateTransaction_candidates [OF assms(1)] assms(2) assms(3))
  have "?req + ?feeOf (length ([]::Utxo list) + k) \<le> totalValue ([] @ take k cands)"
    using assms(6) by simp
  with assms(5) obtain n where n: "n \<le> k"
    and sel: "accumulateInputs ?feeOf ?req [] cands = Some ([] @ take n cands)"
    using accumulateInputs_first_cover by blast
  from sel obtain j where "j \<le> length cands" "[] @ take n cands = [] @ take j cands"
    "?req + ?feeOf (length ([] @ take n cands)) \<le> totalValue ([] @ take n cands)"
    using accumulateInputs_Some by blast
  moreover have "length (take n cands) = n"
    using n assms(5) by simp
  ultimately have cover: "?req + ?feeOf n \<le> totalValue (take n cands)"
    by simp
  have nonempty: "cands \<noteq> []"
    using assms(4,5) by auto
  define remainder where "remainder = totalValue (take n cands) - ?req - ?feeOf n"
  define tx where "tx = \<lparr>Version = 1, TxIn = map utxoToTxIn (take n cands),
      TxOut = outputs @ (if remainder < dustThreshold R then []
                         else [\<lparr>Value = remainder, PkScript = cs\<rparr>]),
      LockTime = 0\<rparr>"
  have built: "buildTxFromOutputs R cands outputs rate cs = Inr tx"
    using sel nonempty \<open>length (take n cands) = n\<close>
    by (simp add: buildTxFromOutputs_def Let_def tx_def remainder_def)
  have rem0: "0 \<le> remainder"
    using cover by (simp add: remainder_def)
  have txout: "TxOut tx = outputs @
      (if remainder < dustThreshold R then [] else [\<lparr>Value = remainder, PkScript = cs\<rparr>])"
    by (simp add: tx_def)
  have bal: "totalValue (take n cands) =
      sumOutputValues (TxOut tx) + ?feeOf n + (if remainder < dustThreshold R then remainder else 0)"
    by (simp add: tx_def sumOutputValues_def remainder_def)
  have body: "0 \<le> remainder \<and>
      TxOut tx = outputs @
        (if remainder < dustThreshold R then [] else [\<lparr>Value = remainder, PkScript = cs\<rparr>]) \<and>
      totalValue (take n cands) =
        sumOutputValues (TxOut tx) + ?feeOf n +
        (if remainder < dustThreshold R then remainder else 0)"
    using rem0 txout bal by (intro conjI)
  show ?thesis
  proof (intro exI [of _ tx] exI [of _ n] conjI)
    show "CreateTransaction L R w outputs rate addr tr = (Inr tx, tr @ [CallListUnspent])"
      using run built by simp
    show "n \<le> k" by (rule n)
    show "TxIn tx = map utxoToTxIn (take n cands)"
      by (simp add: tx_def)
    show "let fee = requiredFee R rate outputs cs n;
              remainder = totalValue (take n cands) - sumOutputValues outputs - fee
          in 0 \<le> remainder \<and>
             TxOut tx = outputs @
               (if remainder < dustThreshold R then []
                else [\<lparr>Value = remainder, PkScript = cs\<rparr>]) \<and>
             totalValue (take n cands) =
               sumOutputValues (TxOut tx) + fee +
               (if remainder < dustThreshold R then remainder else 0)"
      unfolding Let_def using body [unfolded remainder_def] .
  qed
qed

theorem C8_funded_transaction_witness:
  "\<exists>tx n. CreateTransaction exLibs exRules (exController BitcoindWalletBackend) exOutputs 10
             (Address ''change'') [] = (Inr tx, [CallListUnspent]) \<and>
          n \<le> 1 \<and> TxIn tx = map utxoToTxIn (take n exCandidates) \<and>
          TxOut tx = exOutputs @ [\<lparr>Value = 998, PkScript = [0x51]\<rparr>] \<and>
          totalValue (take n exCandidates) = sumOutputValues (TxOut tx) + 2"
proof -
  have pos: "0 < (1::nat)" by simp
  have le: "1 \<le> length exCandidates"
    by (simp add: exCandidates_def)
  have cover: "sumOutputValues exOutputs + requiredFee exRules 10 exOutputs [0x51] 1
      \<le> totalValue (take 1 exCandidates)"
    by (simp add: exCandidates_def totalValue_def sumOutputValues_def exOutputs_def
        requiredFee_def feeForSize_def exRules_def)
  from C8_funded_transaction_balances
      [OF exListing(1) [of BitcoindWalletBackend] exChange(1) exCandidates_eq [symmetric]
          pos le cover, where tr = "[]"]
  obtain tx n where run: "CreateTransaction exLibs exRules (exController BitcoindWalletBackend)
        exOutputs 10 (Address ''change'') [] = (Inr tx, [CallListUnspent])"
    and n: "n \<le> 1" and ins: "TxIn tx = map utxoToTxIn (take n exCandidates)"
    by auto
  from run have tx: "tx = exFundedTx"
    by (simp add: exCreate)
  with ins have "n = 1"
    using n by (cases n) (simp_all add: exFundedTx_def)
  with tx ins n run show ?thesis
    by (intro exI [of _ tx] exI [of _ n])
       (simp add: exFundedTx_def exOutputs_def exCandidates_def totalValue_def
          sumOutputValues_def)
qed

theorem C8_change_address_is_checked_first:
  "sumOutputValues exOutputs + requiredFee exRules 10 exOutputs [] 2
     \<le> totalValue (map resultToUtxo (filter Spendable exUnspent)) \<and>
   CreateTransaction exLibs exRules (exController BitcoindWalletBackend) exOutputs 10
       (Address []) [] =
     (Inl (CollaboratorError ''unsupported address type''), [CallListUnspent])"
  by (simp add: builder_defs ex_defs exOutputs_def)

text \<open>
  C9. Whenever the confirmation query (\<open>TxDetails\<close>, or its helper \<open>getTxDetails\<close>)
  returns a non-nil error, the status returned alongside it is \<open>TxNotFound\<close>: this
  covers the failure to build the request, the failure of the backend lookup and the
  unrecognised backend.
\<close>

theorem C9_error_status_is_not_found:
  "(fst (getTxDetails w req msg tr) = Returns (conf, st, Some e) \<longrightarrow> st = TxNotFound) \<and>
   (fst (TxDetails L w txHash pkScript tr) = Returns (conf', st', Some e') \<longrightarrow> st' = TxNotFound)"
proof
  show get: "fst (getTxDetails w req msg tr) = Returns (conf, st, Some e) \<longrightarrow> st = TxNotFound"
    for w req msg tr conf st e
    by (auto simp: getTxDetails_def split: prod.splits option.splits outcome.splits)
  show "fst (TxDetails L w txHash pkScript tr) = Returns (conf', st', Some e') \<longrightarrow> st' = TxNotFound"
    using get
    by (auto simp: TxDetails_def split: sum.splits SupportedWalletBackend.splits)
qed

theorem C9_error_status_witness:
  "fst (getTxDetails (exController BitcoindWalletBackend) \<lparr>TxID = [], ReqPkScript = [0x51]\<rparr>
          txNotFoundErrMsgBitcoind []) =
     Returns (None, TxNotFound, Some (CollaboratorError ''no txindex'')) \<and>
   fst (TxDetails exLibs (exController BitcoindWalletBackend) None [] []) =
     Returns (None, TxNotFound, Some (CollaboratorError ''unsupported script type''))"
  using C9_error_status_is_not_found
    [of "exController BitcoindWalletBackend" "\<lparr>TxID = [], ReqPkScript = [0x51]\<rparr>"
        txNotFoundErrMsgBitcoind "[]" None TxNotFound "CollaboratorError ''no txindex''"
        exLibs None "[]" None TxNotFound "CollaboratorError ''unsupported script type''"]
  by (simp add: getTxDetails_def TxDetails_def exController_def exClient_def exLibs_def)

text \<open>
  C10. The constructor ignores its \<open>network\<close> argument for every combination of
  arguments: two calls that differ in it only give the same result. When it returns a
  controller, the chain parameters are present and the network name, as \<open>NetworkName\<close>
  returns it, is their \<open>Name\<close>, and it is still that name after any sequence of calls
  of the controller's methods.
\<close>

theorem C10_network_name_from_params:
  "NewRpcWalletControllerFromArgs L host user pass nw wp nb params dt raw path =
     NewRpcWalletControllerFromArgs L host user pass nw' wp nb params dt raw path \<and>
   (NewRpcWalletControllerFromArgs L host user pass nw wp nb params dt raw path = Returns (Inr w) \<longrightarrow>
      (\<exists>p. params = Some p \<and> NetworkName w = Name p \<and>
           NetworkName (fst (lifetime L' R (w, tr) calls)) = Name p))"
proof
  show "NewRpcWalletControllerFromArgs L host user pass nw wp nb params dt raw path =
     NewRpcWalletControllerFromArgs L host user pass nw' wp nb params dt raw path"
    by (simp add: NewRpcWalletControllerFromArgs_def)
  show "NewRpcWalletControllerFromArgs L host user pass nw wp nb params dt raw path = Returns (Inr w) \<longrightarrow>
      (\<exists>p. params = Some p \<and> NetworkName w = Name p \<and>
           NetworkName (fst (lifetime L' R (w, tr) calls)) = Name p)"
    by (auto simp: NewRpcWalletControllerFromArgs_def Let_def NetworkName_def lifetime_controller
        split: sum.splits option.splits if_splits)
qed

theorem C10_network_name_witness:
  "NewRpcWalletControllerFromArgs exLibs ''localhost:18332'' ''user'' ''secret'' ''mainnet''
       ''pass'' BitcoindWalletBackend (Some \<lparr>Name = ''testnet3''\<rparr>) True [] [] =
     Returns (Inr \<lparr>Client = exClient, walletPassphrase = ''pass'', network = ''testnet3'',
                   backend = BitcoindWalletBackend\<rparr>) \<and>
   NetworkName \<lparr>Client = exClient, walletPassphrase = ''pass'', network = ''testnet3'',
                backend = BitcoindWalletBackend\<rparr> = ''testnet3'' \<and>
   NetworkName (fst (lifetime exLibs exRules
       (\<lparr>Client = exClient, walletPassphrase = ''pass'', network = ''testnet3'',
         backend = BitcoindWalletBackend\<rparr>, [])
       [DoUnlockWallet 60, DoCreateAndSignTx exOutputs 10 (Address ''change''), DoNetworkName])) =
     ''testnet3''"
proof -
  have made: "NewRpcWalletControllerFromArgs exLibs ''localhost:18332'' ''user'' ''secret''
       ''mainnet'' ''pass'' BitcoindWalletBackend (Some \<lparr>Name = ''testnet3''\<rparr>) True [] [] =
     Returns (Inr \<lparr>Client = exClient, walletPassphrase = ''pass'', network = ''testnet3'',
                   backend = BitcoindWalletBackend\<rparr>)"
    by (simp add: NewRpcWalletControllerFromArgs_def exLibs_def)
  show ?thesis
    using C10_network_name_from_params
      [of exLibs "''localhost:18332''" "''user''" "''secret''" "''mainnet''" "''pass''"
          BitcoindWalletBackend "Some \<lparr>Name = ''testnet3''\<rparr>" True "[]" "[]" "''mainnet''"
          "\<lparr>Client = exClient, walletPassphrase = ''pass'', network = ''testnet3'',
            backend = BitcoindWalletBackend\<rparr>"
          exLibs exRules "[]"
          "[DoUnlockWallet 60, DoCreateAndSignTx exOutputs 10 (Address ''change''), DoNetworkName]"]
      made
    by simp
qed

end
